theory Spec2Isabelle
  imports Complex_Main "HOL-Library.Sublist"
begin

section \<open>Python strings\<close>

text \<open>
  A Python \<open>str\<close> is modelled as a HOL \<open>string\<close>, one \<open>char\<close> per code point, for code
  points below 256. \<open>length\<close> is Python's \<open>len\<close>. The functions below are \<open>str.isspace\<close>,
  \<open>str.strip\<close>, \<open>str.lower\<close>, \<open>str.upper\<close>, the operator \<open>in\<close> on strings and
  \<open>str.replace\<close> on that range. The upper-case images of code points 181 and 255 lie
  beyond 255; the model keeps these two characters as they are (neither they nor their
  images are letters of a word the program looks for).
\<close>

definition isspace :: "char \<Rightarrow> bool" where
  "isspace c = (of_char c \<in> set [9, 10, 11, 12, 13, 28, 29, 30, 31, 32, 133, 160 :: nat])"

definition str_strip :: "string \<Rightarrow> string" where
  "str_strip s = rev (dropWhile isspace (rev (dropWhile isspace s)))"

definition lower_char :: "char \<Rightarrow> char" where
  "lower_char c =
     (let n = (of_char c :: nat)
      in if (65 \<le> n \<and> n \<le> 90) \<or> (192 \<le> n \<and> n \<le> 222 \<and> n \<noteq> 215)
         then char_of (n + 32) else c)"

definition str_lower :: "string \<Rightarrow> string" where
  "str_lower s = map lower_char s"

definition upper_char :: "char \<Rightarrow> string" where
  "upper_char c =
     (let n = (of_char c :: nat)
      in if (97 \<le> n \<and> n \<le> 122) \<or> (224 \<le> n \<and> n \<le> 254 \<and> n \<noteq> 247)
         then [char_of (n - 32)]
         else if n = 223 then ''SS'' else [c])"

definition str_upper :: "string \<Rightarrow> string" where
  "str_upper s = concat (map upper_char s)"

text \<open>\<open>contains w s\<close> is Python's \<open>w in s\<close> for strings: \<open>w\<close> occurs in \<open>s\<close> as a
  contiguous run.\<close>

fun contains :: "string \<Rightarrow> string \<Rightarrow> bool" where
  "contains w [] = (w = [])"
| "contains w (c # cs) = (prefix w (c # cs) \<or> contains w cs)"

text \<open>\<open>any(word in text for word in words)\<close>.\<close>

definition any_in :: "string list \<Rightarrow> string \<Rightarrow> bool" where
  "any_in ws text = list_ex (\<lambda>word. contains word text) ws"

text \<open>\<open>s.replace("REJECTED:", "")\<close>: every occurrence, left to right, is removed.\<close>

fun remove_rejected :: "string \<Rightarrow> string" where
  "remove_rejected [] = []"
| "remove_rejected (c # cs) =
     (if prefix ''REJECTED:'' (c # cs) then remove_rejected (drop 8 cs)
      else c # remove_rejected cs)"

text \<open>\<open>str(n)\<close> for a natural number.\<close>

fun str_nat :: "nat \<Rightarrow> string" where
  "str_nat n =
     (if n < 10 then [char_of (48 + n)]
      else str_nat (n div 10) @ [char_of (48 + n mod 10)])"

section \<open>The state schema (state.py)\<close>

record TicketInfo =
  subject :: string
  description :: string

record ContextDocument =
  content :: string
  source :: string
  relevance_score :: real
  doc_category :: string

record ReviewFeedback =
  rf_status :: string
  rf_feedback :: string
  rf_timestamp :: string
  attempt :: nat

text \<open>
  \<open>SupportTicketState\<close>. A field typed \<open>Optional\<close> in the source is an \<open>option\<close>;
  \<open>final_output\<close> is one too, because \<open>finalize_response_node\<close> stores the optional
  \<open>current_draft\<close> in it.
\<close>

record SupportTicketState =
  ticket :: TicketInfo
  category :: string
  retrieved_context :: "ContextDocument list"
  drafts :: "string list"
  current_draft :: "string option"
  review_feedback :: "ReviewFeedback list"
  review_status :: "string option"
  latest_feedback :: "string option"
  final_output :: "string option"
  retries :: nat
  status :: string
  escalated :: bool
  processing_start_time :: "string option"
  processing_end_time :: "string option"
  node_execution_log :: "string list option"

text \<open>
  \<open>datetime.now().isoformat()\<close> is read from a clock \<open>now :: nat \<Rightarrow> string\<close>: \<open>now i\<close> is
  the \<open>i\<close>-th reading taken during the call being modelled.
\<close>

type_synonym clock = "nat \<Rightarrow> string"

definition create_initial_state :: "clock \<Rightarrow> TicketInfo \<Rightarrow> SupportTicketState" where
  "create_initial_state now t =
     \<lparr> ticket = \<lparr> subject = subject t, description = description t \<rparr>,
       category = '''',
       retrieved_context = [],
       drafts = [],
       current_draft = None,
       review_feedback = [],
       review_status = None,
       latest_feedback = None,
       final_output = Some '''',
       retries = 0,
       status = ''initialized'',
       escalated = False,
       processing_start_time = Some (now 0),
       processing_end_time = None,
       node_execution_log = Some [] \<rparr>"

text \<open>\<open>log_state_transition\<close>: a missing log is created, then the entry is appended.\<close>

definition log_state_transition ::
  "string \<Rightarrow> SupportTicketState \<Rightarrow> string \<Rightarrow> string \<Rightarrow> SupportTicketState" where
  "log_state_transition stamp s node_name action =
     (let log = (case node_execution_log s of None \<Rightarrow> [] | Some l \<Rightarrow> l);
          log_entry = stamp @ '' - '' @ node_name @ '': '' @ action
      in s\<lparr> node_execution_log := Some (log @ [log_entry]) \<rparr>)"

section \<open>Ticket validation (utils.py)\<close>

text \<open>
  \<open>validate_ticket_input\<close> on a dictionary that has both keys with string values (a
  \<open>TicketInfo\<close>); the checks on the dictionary's shape are decided by the type.
\<close>

definition validate_ticket_input :: "TicketInfo \<Rightarrow> bool \<times> string" where
  "validate_ticket_input t =
     (if str_strip (subject t) = [] then (False, ''Subject must be a non-empty string'')
      else if str_strip (description t) = []
        then (False, ''Description must be a non-empty string'')
      else if length (subject t) > 200
        then (False, ''Subject must be 200 characters or less'')
      else if length (description t) > 5000
        then (False, ''Description must be 5000 characters or less'')
      else (True, ''''))"

section \<open>The language-model client (gemini_client.py)\<close>

text \<open>
  What \<open>requests.post\<close> and the decoding of its reply can do: raise (no connection, a
  time-out), or give a reply with a status code. \<open>body\<close> is
  \<open>result['choices'][0]['message']['content']\<close>; it is \<open>None\<close> when \<open>response.json()\<close> or
  one of the look-ups raises.
\<close>

datatype exn = Exception | GraphRecursionError

datatype http_result = Transport_error | Http_reply nat "string option"

definition GeminiClient_classify_ticket :: "http_result \<Rightarrow> string" where
  "GeminiClient_classify_ticket r =
     (case r of
        Transport_error \<Rightarrow> ''General''
      | Http_reply code body \<Rightarrow>
          if code = 200 then
            (case body of
               None \<Rightarrow> ''General''
             | Some text \<Rightarrow>
                 (let category = str_strip text
                  in if category \<notin> set [''Billing'', ''Technical'', ''Security'', ''General'']
                     then ''General'' else category))
          else ''General'')"

record review_result =
  rr_status :: string
  rr_feedback :: string

definition GeminiClient_review_response :: "http_result \<Rightarrow> review_result" where
  "GeminiClient_review_response r =
     (case r of
        Transport_error \<Rightarrow>
          \<lparr> rr_status = ''approved'',
            rr_feedback = ''Review system unavailable, proceeding with response'' \<rparr>
      | Http_reply code body \<Rightarrow>
          if code = 200 then
            (case body of
               None \<Rightarrow>
                 \<lparr> rr_status = ''approved'',
                   rr_feedback = ''Review system unavailable, proceeding with response'' \<rparr>
             | Some text \<Rightarrow>
                 (let review_text = str_strip text
                  in if contains ''APPROVED'' (str_upper review_text) then
                       \<lparr> rr_status = ''approved'',
                         rr_feedback = ''Response meets quality standards'' \<rparr>
                     else if contains ''REJECTED'' (str_upper review_text) then
                       \<lparr> rr_status = ''rejected'',
                         rr_feedback = str_strip (remove_rejected review_text) \<rparr>
                     else
                       \<lparr> rr_status = ''approved'',
                         rr_feedback = ''Review completed successfully'' \<rparr>))
          else
            \<lparr> rr_status = ''approved'',
              rr_feedback = ''Review system unavailable, proceeding with response'' \<rparr>)"

text \<open>
  The client as the nodes see it: three awaited calls, each of which returns or raises.
  \<open>draft_response\<close> stands for the whole computation of \<open>response\<close> in
  \<open>generate_response_node\<close> when a client is present (the profile, context and
  complexity analyses, \<open>generate_intelligent_response\<close> and
  \<open>enhance_response_with_context\<close>), from the ticket, the category, the context and the
  previous feedback; no property below depends on the text it produces.
\<close>

record gemini =
  classify_ticket :: "string \<Rightarrow> string \<Rightarrow> exn + string"
  draft_response ::
    "TicketInfo \<Rightarrow> string \<Rightarrow> ContextDocument list \<Rightarrow> string option \<Rightarrow> exn + string"
  review_response ::
    "string \<Rightarrow> string \<Rightarrow> string \<Rightarrow> ContextDocument list \<Rightarrow> exn + review_result"

text \<open>
  \<open>GeminiClient\<close> over a transport: \<open>post_classify\<close> and \<open>post_review\<close> give the outcome of
  the request made for the arguments of the call. Both methods catch every exception, so
  they always return.
\<close>

definition GeminiClient ::
  "(string \<Rightarrow> string \<Rightarrow> http_result) \<Rightarrow>
   (TicketInfo \<Rightarrow> string \<Rightarrow> ContextDocument list \<Rightarrow> string option \<Rightarrow> exn + string) \<Rightarrow>
   (string \<Rightarrow> string \<Rightarrow> string \<Rightarrow> ContextDocument list \<Rightarrow> http_result) \<Rightarrow> gemini" where
  "GeminiClient post_classify drafter post_review =
     \<lparr> classify_ticket = (\<lambda>subj desc. Inr (GeminiClient_classify_ticket (post_classify subj desc))),
       draft_response = drafter,
       review_response =
         (\<lambda>subj desc draft docs. Inr (GeminiClient_review_response (post_review subj desc draft docs))) \<rparr>"

section \<open>The retrieval system (rag_system.py)\<close>

text \<open>
  A knowledge-base document: its content and, when the dictionary has the key, its
  source.
\<close>

record kb_document =
  kb_content :: string
  kb_source :: "string option"

text \<open>
  \<open>RAGSystem\<close> after \<open>_initialize_indexes\<close>. \<open>document_stores c\<close> is \<open>Some docs\<close> when \<open>c\<close> is
  a key of \<open>vectorizers\<close> and \<open>document_vectors[c]\<close> is not \<open>None\<close>, and \<open>None\<close> otherwise.
  \<open>similarities query c\<close> is what \<open>vectorizer.transform\<close> followed by
  \<open>cosine_similarity(...).flatten()\<close> gives for the query on the vectors of \<open>c\<close>: one
  score per row, or an exception. Scores are compared only, so they are reals.
\<close>

record RAGSystem =
  document_stores :: "string \<Rightarrow> kb_document list option"
  similarities :: "string \<Rightarrow> string \<Rightarrow> exn + real list"

text \<open>\<open>xs.sort(key=lambda x: x['relevance_score'], reverse=True)\<close>: Python's sort is
  stable, and with \<open>reverse=True\<close> elements of equal key keep their order.\<close>

definition sort_by_relevance :: "ContextDocument list \<Rightarrow> ContextDocument list" where
  "sort_by_relevance xs = rev (sort_key relevance_score (rev xs))"

text \<open>The loop of \<open>_search_category\<close> over \<open>enumerate(similarities)\<close>; \<open>documents[idx]\<close>
  raises when \<open>idx\<close> is out of range.\<close>

fun collect_results ::
  "kb_document list \<Rightarrow> string \<Rightarrow> real \<Rightarrow> nat \<Rightarrow> real list \<Rightarrow> exn + ContextDocument list" where
  "collect_results documents cat min_relevance idx [] = Inr []"
| "collect_results documents cat min_relevance idx (similarity # rest) =
     (if similarity \<ge> min_relevance then
        (if idx < length documents then
           (case collect_results documents cat min_relevance (Suc idx) rest of
              Inl e \<Rightarrow> Inl e
            | Inr results \<Rightarrow>
                Inr (\<lparr> content = kb_content (documents ! idx),
                       source = (case kb_source (documents ! idx) of
                                   Some src \<Rightarrow> src
                                 | None \<Rightarrow> cat @ ''_doc_'' @ str_nat idx),
                       relevance_score = similarity,
                       doc_category = cat \<rparr> # results))
         else Inl Exception)
      else collect_results documents cat min_relevance (Suc idx) rest)"

definition search_category ::
  "RAGSystem \<Rightarrow> string \<Rightarrow> string \<Rightarrow> nat \<Rightarrow> real \<Rightarrow> ContextDocument list" where
  "search_category rag query cat top_k min_relevance =
     (case document_stores rag cat of
        None \<Rightarrow> []
      | Some documents \<Rightarrow>
          if length documents = 0 then []
          else
            (case similarities rag query cat of
               Inl e \<Rightarrow> []
             | Inr sims \<Rightarrow>
                 (case collect_results documents cat min_relevance 0 sims of
                    Inl e \<Rightarrow> []
                  | Inr results \<Rightarrow> take top_k (sort_by_relevance results))))"

definition get_related_categories :: "string \<Rightarrow> string list" where
  "get_related_categories primary_category =
     (if primary_category = ''Billing'' then [''General'']
      else if primary_category = ''Technical'' then [''General'', ''Security'']
      else if primary_category = ''Security'' then [''Technical'', ''General'']
      else if primary_category = ''General'' then [''Billing'', ''Technical'', ''Security'']
      else [''General''])"

text \<open>The loop over the related categories, with its \<open>break\<close>.\<close>

fun search_related ::
  "RAGSystem \<Rightarrow> string \<Rightarrow> nat \<Rightarrow> nat \<Rightarrow> real \<Rightarrow> string list \<Rightarrow>
   ContextDocument list \<Rightarrow> ContextDocument list" where
  "search_related rag query top_k remaining_k min_relevance [] all_results = all_results"
| "search_related rag query top_k remaining_k min_relevance (related_cat # cats) all_results =
     (if document_stores rag related_cat \<noteq> None then
        (let all_results' =
               all_results @ search_category rag query related_cat remaining_k min_relevance
         in if length all_results' \<ge> top_k then all_results'
            else search_related rag query top_k remaining_k min_relevance cats all_results')
      else search_related rag query top_k remaining_k min_relevance cats all_results)"

text \<open>\<open>RAGSystem.retrieve_context\<close>; \<open>top_k\<close> is a natural number (the nodes pass 3 and 5).
  The method catches every exception, so it always returns.\<close>

definition retrieve_context ::
  "RAGSystem \<Rightarrow> string \<Rightarrow> string \<Rightarrow> nat \<Rightarrow> bool \<Rightarrow> real \<Rightarrow> ContextDocument list" where
  "retrieve_context rag query cat top_k include_related min_relevance =
     (let primary =
            (if document_stores rag cat \<noteq> None
             then search_category rag query cat top_k min_relevance
             else if document_stores rag ''General'' \<noteq> None
             then search_category rag query ''General'' top_k min_relevance
             else []);
          all_results =
            (if include_related \<and> length primary < top_k
             then search_related rag query top_k (top_k - length primary) min_relevance
                    (get_related_categories cat) primary
             else primary)
      in take top_k (sort_by_relevance all_results))"

definition enhance_query :: "string \<Rightarrow> string \<Rightarrow> string" where
  "enhance_query subj desc = str_strip (str_lower (subj @ '' '' @ subj @ '' '' @ desc))"

text \<open>The retriever as the nodes see it: the awaited call
  \<open>retrieve_context(query, category, top_k, include_related, min_relevance)\<close>, which
  returns or raises.\<close>

type_synonym retriever =
  "string \<Rightarrow> string \<Rightarrow> nat \<Rightarrow> bool \<Rightarrow> real \<Rightarrow> exn + ContextDocument list"

definition RAGSystem_retriever :: "RAGSystem \<Rightarrow> retriever" where
  "RAGSystem_retriever rag =
     (\<lambda>query cat top_k include_related min_relevance.
        Inr (retrieve_context rag query cat top_k include_related min_relevance))"

section \<open>The escalation log (utils.py)\<close>

text \<open>
  The CSV file: \<open>rows = None\<close> when the file does not exist, otherwise its lines, each a
  list of cells. \<open>writable\<close> tells whether opening the file for appending and writing to
  it succeed.
\<close>

datatype cell = Text string | Number nat

record sink =
  writable :: bool
  rows :: "cell list list option"

record escalation_data =
  ed_timestamp :: string
  ed_ticket_subject :: string
  ed_ticket_description :: string
  ed_category :: string
  ed_retries :: nat
  ed_review_feedback :: "ReviewFeedback list"
  ed_final_drafts :: "string list"

text \<open>\<open>flattened_data\<close> of \<open>save_escalation_log\<close>, as the list of its keys and values.\<close>

definition flattened_data :: "escalation_data \<Rightarrow> (string \<times> cell) list" where
  "flattened_data d =
     [ (''timestamp'', Text (ed_timestamp d)),
       (''ticket_subject'', Text (ed_ticket_subject d)),
       (''ticket_description'', Text (ed_ticket_description d)),
       (''category'', Text (ed_category d)),
       (''retries'', Number (ed_retries d)),
       (''review_count'', Number (length (ed_review_feedback d))),
       (''draft_count'', Number (length (ed_final_drafts d))) ]"

definition save_escalation_log :: "escalation_data \<Rightarrow> sink \<Rightarrow> bool \<times> sink" where
  "save_escalation_log d csv_file =
     (if writable csv_file then
        (let header = (case rows csv_file of
                         None \<Rightarrow> [map (\<lambda>kv. Text (fst kv)) (flattened_data d)]
                       | Some old \<Rightarrow> old)
         in (True, csv_file\<lparr> rows := Some (header @ [map snd (flattened_data d)]) \<rparr>))
      else (False, csv_file))"

section \<open>The nodes (nodes.py)\<close>

text \<open>The module globals \<open>gemini_client\<close> and \<open>rag_system\<close>: \<open>None\<close> when
  \<open>initialize_components\<close> failed.\<close>

record components =
  gemini_client :: "gemini option"
  rag_system :: "retriever option"

definition fallback_classify :: "string \<Rightarrow> string \<Rightarrow> string" where
  "fallback_classify subj desc =
     (let text = str_lower (subj @ '' '' @ desc)
      in if any_in [''bill'', ''payment'', ''charge'', ''refund'', ''price''] text
           then ''Billing''
         else if any_in [''api'', ''error'', ''bug'', ''technical'', ''integration''] text
           then ''Technical''
         else if any_in [''security'', ''password'', ''login'', ''access'', ''authentication''] text
           then ''Security''
         else ''General'')"

definition fallback_response :: "TicketInfo \<Rightarrow> string \<Rightarrow> ContextDocument list \<Rightarrow> string" where
  "fallback_response t cat context_docs =
     ''Thank you for contacting our '' @ str_lower cat @ '' support team.'' @ [CHR 10, CHR 10] @
     ''We have received your inquiry regarding: '' @ subject t @ [CHR 10, CHR 10] @
     ''Our team is currently reviewing your request and will provide a detailed response within our standard response time. '' @ [CHR 10, CHR 10] @
     ''If this is an urgent matter, please contact our priority support line.'' @ [CHR 10, CHR 10] @
     ''Best regards,'' @ [CHR 10] @ ''Support Team''"

definition classify_ticket_node ::
  "components \<Rightarrow> clock \<Rightarrow> SupportTicketState \<Rightarrow> SupportTicketState" where
  "classify_ticket_node cmp now s =
     (let subj = subject (ticket s); desc = description (ticket s);
          result = (case gemini_client cmp of
                      Some client \<Rightarrow> classify_ticket client subj desc
                    | None \<Rightarrow> Inr (fallback_classify subj desc))
      in case result of
           Inr cat \<Rightarrow>
             log_state_transition (now 0) (s\<lparr> category := cat, status := ''classified'' \<rparr>)
               ''classify_ticket'' (''Classified as '' @ cat)
         | Inl e \<Rightarrow>
             log_state_transition (now 0) (s\<lparr> category := ''General'', status := ''classified'' \<rparr>)
               ''classify_ticket'' ''Error occurred, defaulted to General'')"

definition retrieve_context_node ::
  "components \<Rightarrow> clock \<Rightarrow> SupportTicketState \<Rightarrow> SupportTicketState" where
  "retrieve_context_node cmp now s =
     (let result = (case rag_system cmp of
                      Some retrieve \<Rightarrow>
                        retrieve (enhance_query (subject (ticket s)) (description (ticket s)))
                          (category s) 3 True (1 / 10)
                    | None \<Rightarrow> Inr [])
      in case result of
           Inr context_docs \<Rightarrow>
             log_state_transition (now 0)
               (s\<lparr> retrieved_context := context_docs, status := ''context_retrieved'' \<rparr>)
               ''retrieve_context'' (''Retrieved '' @ str_nat (length context_docs) @ '' documents'')
         | Inl e \<Rightarrow>
             log_state_transition (now 0)
               (s\<lparr> retrieved_context := [], status := ''context_retrieved'' \<rparr>)
               ''retrieve_context'' ''Error occurred, proceeding without context'')"

definition generate_response_node ::
  "components \<Rightarrow> clock \<Rightarrow> SupportTicketState \<Rightarrow> SupportTicketState" where
  "generate_response_node cmp now s =
     (let previous_feedback =
            (if review_feedback s \<noteq> [] \<and> rf_status (last (review_feedback s)) = ''rejected''
             then Some (rf_feedback (last (review_feedback s))) else None);
          result = (case gemini_client cmp of
                      Some client \<Rightarrow>
                        draft_response client (ticket s) (category s) (retrieved_context s)
                          previous_feedback
                    | None \<Rightarrow> Inr (fallback_response (ticket s) (category s) (retrieved_context s)))
      in case result of
           Inr response \<Rightarrow>
             log_state_transition (now 0)
               (s\<lparr> drafts := drafts s @ [response], current_draft := Some response,
                    status := ''response_generated'' \<rparr>)
               ''generate_response'' ''Response generated successfully''
         | Inl e \<Rightarrow>
             (let fallback =
                    ''I apologize, but I'' @ [CHR 39] @ ''m experiencing technical difficulties. Please contact our support team directly for assistance with your ''
                    @ str_lower (category s) @ '' inquiry.''
              in log_state_transition (now 0)
                   (s\<lparr> drafts := drafts s @ [fallback], current_draft := Some fallback,
                        status := ''response_generated'' \<rparr>)
                   ''generate_response'' ''Error occurred, generated fallback response''))"

text \<open>\<open>if gemini_client and current_response\<close>: the draft is neither \<open>None\<close> nor empty.\<close>

definition review_response_node ::
  "components \<Rightarrow> clock \<Rightarrow> SupportTicketState \<Rightarrow> SupportTicketState" where
  "review_response_node cmp now s =
     (let result =
            (case (gemini_client cmp, current_draft s) of
               (Some client, Some current_response) \<Rightarrow>
                 if current_response \<noteq> [] then
                   review_response client (subject (ticket s)) (description (ticket s))
                     current_response (retrieved_context s)
                 else Inr \<lparr> rr_status = ''approved'', rr_feedback = ''Automated review completed'' \<rparr>
             | _ \<Rightarrow> Inr \<lparr> rr_status = ''approved'', rr_feedback = ''Automated review completed'' \<rparr>)
      in case result of
           Inr review \<Rightarrow>
             log_state_transition (now 1)
               (s\<lparr> review_feedback := review_feedback s @
                      [\<lparr> rf_status = rr_status review, rf_feedback = rr_feedback review,
                         rf_timestamp = now 0, attempt = length (review_feedback s) + 1 \<rparr>],
                    review_status := Some (rr_status review),
                    latest_feedback := Some (rr_feedback review),
                    status := ''reviewed'' \<rparr>)
               ''review_response'' (''Review: '' @ rr_status review)
         | Inl e \<Rightarrow>
             log_state_transition (now 1)
               (s\<lparr> review_feedback := review_feedback s @
                      [\<lparr> rf_status = ''approved'',
                         rf_feedback = ''Review system unavailable, proceeding with response'',
                         rf_timestamp = now 0, attempt = length (review_feedback s) + 1 \<rparr>],
                    review_status := Some ''approved'',
                    latest_feedback := Some ''Review system unavailable, proceeding with response'',
                    status := ''reviewed'' \<rparr>)
               ''review_response'' ''Error occurred, defaulted to approved'')"

text \<open>The query of \<open>refine_context_node\<close>; an f-string prints \<open>None\<close> as \<open>None\<close>.\<close>

definition enhanced_query :: "SupportTicketState \<Rightarrow> string" where
  "enhanced_query s =
     (let feedback = (case latest_feedback s of Some f \<Rightarrow> f | None \<Rightarrow> ''None'')
      in subject (ticket s) @ '' '' @ description (ticket s) @ '' '' @ feedback)"

definition refine_context_node ::
  "components \<Rightarrow> clock \<Rightarrow> SupportTicketState \<Rightarrow> SupportTicketState" where
  "refine_context_node cmp now s =
     (let result = (case rag_system cmp of
                      Some retrieve \<Rightarrow> retrieve (enhanced_query s) (category s) 5 True (5 / 100)
                    | None \<Rightarrow> Inr (retrieved_context s))
      in case result of
           Inr refined_context \<Rightarrow>
             log_state_transition (now 0)
               (s\<lparr> retrieved_context := refined_context, status := ''context_refined'' \<rparr>)
               ''refine_context''
               (''Refined to '' @ str_nat (length refined_context) @ '' documents'')
         | Inl e \<Rightarrow>
             log_state_transition (now 0) (s\<lparr> status := ''context_refined'' \<rparr>)
               ''refine_context'' ''Error occurred, keeping existing context'')"

text \<open>
  \<open>escalate_ticket_node\<close> also writes to the escalation log, so it takes and returns the
  file. \<open>save_escalation_log\<close> catches every exception and its result is not looked at.
\<close>

definition escalation_message :: string where
  "escalation_message =
     ''This ticket has been escalated to our human support team for personalized assistance. '' @
     ''A support specialist will review your case and provide a detailed response within our '' @
     ''standard response time. Thank you for your patience.''"

definition escalate_ticket_node ::
  "clock \<Rightarrow> SupportTicketState \<times> sink \<Rightarrow> SupportTicketState \<times> sink" where
  "escalate_ticket_node now cfg =
     (let s = fst cfg;
          data = \<lparr> ed_timestamp = now 0,
                   ed_ticket_subject = subject (ticket s),
                   ed_ticket_description = description (ticket s),
                   ed_category = category s,
                   ed_retries = retries s,
                   ed_review_feedback = review_feedback s,
                   ed_final_drafts = drafts s \<rparr>;
          saved = save_escalation_log data (snd cfg)
      in (log_state_transition (now 1)
            (s\<lparr> final_output := Some escalation_message, escalated := True,
                 status := ''escalated'' \<rparr>)
            ''escalate_ticket'' ''Ticket escalated to human agent'',
          snd saved))"

definition finalize_response_node :: "clock \<Rightarrow> SupportTicketState \<Rightarrow> SupportTicketState" where
  "finalize_response_node now s =
     log_state_transition (now 1)
       (s\<lparr> final_output := current_draft s, status := ''resolved'',
            processing_end_time := Some (now 0) \<rparr>)
       ''finalize_response'' ''Workflow completed successfully''"

section \<open>The graph (graph.py)\<close>

datatype node =
    Classify_ticket | Retrieve_context | Generate_response | Review_response
  | Refine_context | Escalate_ticket | Finalize_response

definition review_routing :: "SupportTicketState \<Rightarrow> node" where
  "review_routing s =
     (if review_status s = Some ''approved'' then Finalize_response
      else if retries s < 2 then Refine_context
      else Escalate_ticket)"

text \<open>\<open>increment_retry_and_generate\<close> is defined inside \<open>create_support_agent_graph\<close>; no
  node and no edge of the graph refers to it.\<close>

definition increment_retry_and_generate :: "SupportTicketState \<Rightarrow> SupportTicketState" where
  "increment_retry_and_generate s = s\<lparr> retries := retries s + 1 \<rparr>"

text \<open>The edges: \<open>add_edge\<close> for all nodes but \<open>review_response\<close>, whose successor is chosen
  by \<open>review_routing\<close>; \<open>None\<close> is \<open>END\<close>.\<close>

fun next_node :: "node \<Rightarrow> SupportTicketState \<Rightarrow> node option" where
  "next_node Classify_ticket s = Some Retrieve_context"
| "next_node Retrieve_context s = Some Generate_response"
| "next_node Generate_response s = Some Review_response"
| "next_node Review_response s = Some (review_routing s)"
| "next_node Refine_context s = Some Generate_response"
| "next_node Finalize_response s = None"
| "next_node Escalate_ticket s = None"

fun exec_node ::
  "components \<Rightarrow> clock \<Rightarrow> node \<Rightarrow> SupportTicketState \<times> sink \<Rightarrow> SupportTicketState \<times> sink" where
  "exec_node cmp now Classify_ticket cfg = (classify_ticket_node cmp now (fst cfg), snd cfg)"
| "exec_node cmp now Retrieve_context cfg = (retrieve_context_node cmp now (fst cfg), snd cfg)"
| "exec_node cmp now Generate_response cfg = (generate_response_node cmp now (fst cfg), snd cfg)"
| "exec_node cmp now Review_response cfg = (review_response_node cmp now (fst cfg), snd cfg)"
| "exec_node cmp now Refine_context cfg = (refine_context_node cmp now (fst cfg), snd cfg)"
| "exec_node cmp now Escalate_ticket cfg = escalate_ticket_node now cfg"
| "exec_node cmp now Finalize_response cfg = (finalize_response_node now (fst cfg), snd cfg)"

text \<open>
  The compiled graph run for at most \<open>fuel\<close> node executions from node \<open>n\<close> (\<open>None\<close> is
  \<open>END\<close>): the result is the place reached and the state and log file there. \<open>clk i\<close> is
  the clock of the \<open>i\<close>-th node execution.
\<close>

fun run_graph ::
  "components \<Rightarrow> (nat \<Rightarrow> clock) \<Rightarrow> nat \<Rightarrow> nat \<Rightarrow> node option \<Rightarrow> SupportTicketState \<times> sink \<Rightarrow>
   node option \<times> SupportTicketState \<times> sink" where
  "run_graph cmp clk 0 i n cfg = (n, cfg)"
| "run_graph cmp clk (Suc fuel) i None cfg = (None, cfg)"
| "run_graph cmp clk (Suc fuel) i (Some n) cfg =
     (let cfg' = exec_node cmp (clk i) n cfg
      in run_graph cmp clk fuel (Suc i) (next_node n (fst cfg')) cfg')"

text \<open>
  \<open>agent.ainvoke\<close>: the graph library runs the graph from its entry point. It returns the
  final state when \<open>END\<close> is reached by fewer than \<open>recursion_limit\<close> node executions, and
  raises \<open>GraphRecursionError\<close> otherwise, after \<open>recursion_limit\<close> node executions at most
  (the library's default limit is 25; the callers set none).
\<close>

definition ainvoke ::
  "components \<Rightarrow> (nat \<Rightarrow> clock) \<Rightarrow> nat \<Rightarrow> SupportTicketState \<Rightarrow> sink \<Rightarrow>
   (exn + SupportTicketState) \<times> sink" where
  "ainvoke cmp clk recursion_limit s0 csv_file =
     (case run_graph cmp clk (recursion_limit - 1) 0 (Some Classify_ticket) (s0, csv_file) of
        (None, s, csv_file') \<Rightarrow> (Inr s, csv_file')
      | (Some n, s, csv_file') \<Rightarrow>
          (Inl GraphRecursionError,
           snd (snd (run_graph cmp clk recursion_limit 0 (Some Classify_ticket) (s0, csv_file)))))"

section \<open>The entry point (app.py)\<close>

text \<open>\<open>result_data\<close> of \<open>process_ticket_async\<close>, without its two time fields. \<open>str_exn e\<close>
  is \<open>str(e)\<close>, the message of the exception caught.\<close>

record outcome =
  o_subject :: string
  o_description :: string
  o_category :: string
  o_status :: string
  o_final_output :: "string option"
  o_retries :: nat
  o_escalated :: bool
  o_drafts :: "string list"
  o_review_feedback :: "ReviewFeedback list"

definition process_ticket_async ::
  "components \<Rightarrow> (exn \<Rightarrow> string) \<Rightarrow> clock \<Rightarrow> (nat \<Rightarrow> clock) \<Rightarrow> nat \<Rightarrow> TicketInfo \<Rightarrow> sink \<Rightarrow>
   outcome \<times> sink" where
  "process_ticket_async cmp str_exn now clk recursion_limit ticket_data csv_file =
     (let initial_state = create_initial_state now ticket_data
      in case ainvoke cmp clk recursion_limit initial_state csv_file of
           (Inr result, csv_file') \<Rightarrow>
             (\<lparr> o_subject = subject ticket_data,
                o_description = description ticket_data,
                o_category = category result,
                o_status = status result,
                o_final_output = final_output result,
                o_retries = retries result,
                o_escalated = escalated result,
                o_drafts = drafts result,
                o_review_feedback = review_feedback result \<rparr>, csv_file')
         | (Inl e, csv_file') \<Rightarrow>
             (\<lparr> o_subject = subject ticket_data,
                o_description = description ticket_data,
                o_category = ''Error'',
                o_status = ''error'',
                o_final_output = Some (''Error processing ticket: '' @ str_exn e),
                o_retries = 0,
                o_escalated = True,
                o_drafts = [],
                o_review_feedback = [] \<rparr>, csv_file'))"

section \<open>Notions used in the properties\<close>

text \<open>A list of context documents in descending order of relevance.\<close>

definition descending :: "ContextDocument list \<Rightarrow> bool" where
  "descending ds = sorted_wrt (\<lambda>a b. relevance_score a \<ge> relevance_score b) ds"

text \<open>The reviewer is down or its reply holds no verdict: the request raises, the status
  code is not 200, the reply cannot be decoded, or its text has neither word.\<close>

definition no_verdict :: "http_result \<Rightarrow> bool" where
  "no_verdict r =
     (case r of
        Transport_error \<Rightarrow> True
      | Http_reply code body \<Rightarrow>
          code \<noteq> 200 \<or>
          (case body of
             None \<Rightarrow> True
           | Some text \<Rightarrow>
               \<not> contains ''APPROVED'' (str_upper (str_strip text)) \<and>
               \<not> contains ''REJECTED'' (str_upper (str_strip text))))"

text \<open>A classification request that fails: it raises, the status code is not 200, or the
  reply cannot be decoded.\<close>

definition request_failed :: "http_result \<Rightarrow> bool" where
  "request_failed r =
     (case r of
        Transport_error \<Rightarrow> True
      | Http_reply code body \<Rightarrow> code \<noteq> 200 \<or> body = None)"

text \<open>
  The keyword heuristic in the words of the specification: payment, charge or refund
  give Billing; api, error, bug or integration give Technical; security, password, login
  or access give Security; anything else gives General.
\<close>

definition spec_keyword_heuristic :: "string \<Rightarrow> string \<Rightarrow> string" where
  "spec_keyword_heuristic subj desc =
     (let text = str_lower (subj @ '' '' @ desc)
      in if any_in [''payment'', ''charge'', ''refund''] text then ''Billing''
         else if any_in [''api'', ''error'', ''bug'', ''integration''] text then ''Technical''
         else if any_in [''security'', ''password'', ''login'', ''access''] text then ''Security''
         else ''General'')"

definition categories :: "string list" where
  "categories = [''Billing'', ''Technical'', ''Security'', ''General'']"

text \<open>The cells of the row that \<open>escalate_ticket_node\<close> hands to the escalation log.\<close>

definition escalation_row :: "clock \<Rightarrow> SupportTicketState \<Rightarrow> cell list" where
  "escalation_row now s =
     [ Text (now 0), Text (subject (ticket s)), Text (description (ticket s)),
       Text (category s), Number (retries s), Number (length (review_feedback s)),
       Number (length (drafts s)) ]"

definition escalation_header :: "cell list" where
  "escalation_header =
     [ Text ''timestamp'', Text ''ticket_subject'', Text ''ticket_description'',
       Text ''category'', Text ''retries'', Text ''review_count'', Text ''draft_count'' ]"

section \<open>Sample data\<close>

definition sample_ticket :: TicketInfo where
  "sample_ticket = \<lparr> subject = ''Refund request'', description = ''I was charged twice'' \<rparr>"

definition sample_clock :: clock where
  "sample_clock i = ''2024-01-01T00:00:00''"

definition sample_rag :: RAGSystem where
  "sample_rag =
     \<lparr> document_stores =
         (\<lambda>c. if c = ''Billing''
              then Some [ \<lparr> kb_content = ''Refund policy'', kb_source = Some ''billing_faq'' \<rparr>,
                          \<lparr> kb_content = ''Invoices'', kb_source = None \<rparr>,
                          \<lparr> kb_content = ''Duplicate charges'', kb_source = None \<rparr>,
                          \<lparr> kb_content = ''Payment methods'', kb_source = None \<rparr>,
                          \<lparr> kb_content = ''Plans'', kb_source = None \<rparr> ]
              else if c = ''General''
              then Some [ \<lparr> kb_content = ''Contact'', kb_source = None \<rparr> ]
              else None),
       similarities =
         (\<lambda>query c. if c = ''Billing'' then Inr [5 / 10, 5 / 100, 9 / 10, 3 / 10, 2 / 10]
                     else if c = ''General'' then Inr [2 / 10]
                     else Inl Exception) \<rparr>"

text \<open>The same stores with a similarity computation that always raises.\<close>

definition broken_rag :: RAGSystem where
  "broken_rag = sample_rag\<lparr> similarities := (\<lambda>query c. Inl Exception) \<rparr>"

definition raising_retriever :: retriever where
  "raising_retriever = (\<lambda>query cat top_k include_related min_relevance. Inl Exception)"

text \<open>A state after classification, and one after the first draft and its rejection.\<close>

definition classified_state :: SupportTicketState where
  "classified_state =
     (create_initial_state sample_clock sample_ticket)
       \<lparr> category := ''Billing'', status := ''classified'' \<rparr>"

definition drafted_state :: SupportTicketState where
  "drafted_state =
     classified_state
       \<lparr> retrieved_context :=
           [ \<lparr> content = ''Plans'', source = ''Billing_doc_4'', relevance_score = 2 / 10,
               doc_category = ''Billing'' \<rparr> ],
         drafts := [''A draft''], current_draft := Some ''A draft'',
         status := ''response_generated'' \<rparr>"

definition rejected_state :: SupportTicketState where
  "rejected_state =
     drafted_state
       \<lparr> review_feedback :=
           [ \<lparr> rf_status = ''rejected'', rf_feedback = ''too vague'',
               rf_timestamp = ''2024-01-01T00:00:00'', attempt = 1 \<rparr> ],
         review_status := Some ''rejected'', latest_feedback := Some ''too vague'',
         status := ''reviewed'' \<rparr>"

text \<open>A client whose requests all fail, one whose calls all raise, one whose reviewer
  rejects every draft, and one whose reviewer rejects the first draft only.\<close>

definition outage_client :: gemini where
  "outage_client =
     GeminiClient (\<lambda>subj desc. Transport_error)
       (\<lambda>t cat docs feedback. Inr ''A draft'')
       (\<lambda>subj desc draft docs. Transport_error)"

definition raising_client :: gemini where
  "raising_client =
     \<lparr> classify_ticket = (\<lambda>subj desc. Inl Exception),
       draft_response = (\<lambda>t cat docs feedback. Inl Exception),
       review_response = (\<lambda>subj desc draft docs. Inl Exception) \<rparr>"

definition rejecting_client :: gemini where
  "rejecting_client =
     GeminiClient (\<lambda>subj desc. Http_reply 200 (Some ''Billing''))
       (\<lambda>t cat docs feedback. Inr ''A draft'')
       (\<lambda>subj desc draft docs. Http_reply 200 (Some ''REJECTED: too vague''))"

definition second_try_client :: gemini where
  "second_try_client =
     GeminiClient (\<lambda>subj desc. Http_reply 200 (Some ''Billing''))
       (\<lambda>t cat docs feedback.
          case feedback of None \<Rightarrow> Inr ''First draft'' | Some f \<Rightarrow> Inr ''Second draft'')
       (\<lambda>subj desc draft docs.
          if draft = ''First draft'' then Http_reply 200 (Some ''REJECTED: too vague'')
          else Http_reply 200 (Some ''APPROVED''))"

text \<open>The components with each of these clients and no retrieval system.\<close>

definition rejecting_components :: components where
  "rejecting_components = \<lparr> gemini_client = Some rejecting_client, rag_system = None \<rparr>"

definition second_try_components :: components where
  "second_try_components = \<lparr> gemini_client = Some second_try_client, rag_system = None \<rparr>"

definition no_components :: components where
  "no_components = \<lparr> gemini_client = None, rag_system = None \<rparr>"

text \<open>An escalation log that does not exist yet, and one that cannot be written.\<close>

definition new_sink :: sink where
  "new_sink = \<lparr> writable = True, rows = None \<rparr>"

definition blocked_sink :: sink where
  "blocked_sink = \<lparr> writable = False, rows = None \<rparr>"

text \<open>A state after two refinement cycles, as the escalation handler expects it.\<close>

definition exhausted_state :: SupportTicketState where
  "exhausted_state =
     rejected_state
       \<lparr> drafts := [''A draft'', ''A draft'', ''A draft''],
         review_feedback :=
           [ \<lparr> rf_status = ''rejected'', rf_feedback = ''too vague'',
               rf_timestamp = ''2024-01-01T00:00:00'', attempt = 1 \<rparr>,
             \<lparr> rf_status = ''rejected'', rf_feedback = ''too vague'',
               rf_timestamp = ''2024-01-01T00:00:00'', attempt = 2 \<rparr>,
             \<lparr> rf_status = ''rejected'', rf_feedback = ''too vague'',
               rf_timestamp = ''2024-01-01T00:00:00'', attempt = 3 \<rparr> ],
         retries := 2 \<rparr>"

text \<open>A ticket whose subject has 201 characters, and one that mentions a price.\<close>

definition oversized_ticket :: TicketInfo where
  "oversized_ticket = \<lparr> subject = replicate 201 (CHR ''a''), description = ''x'' \<rparr>"

definition price_ticket :: TicketInfo where
  "price_ticket = \<lparr> subject = ''Price list'', description = ''Where can I find it'' \<rparr>"

definition sample_str_exn :: "exn \<Rightarrow> string" where
  "sample_str_exn e = ''Recursion limit reached''"

section \<open>Strings: auxiliary facts\<close>

lemma contains_iff: "contains w s \<longleftrightarrow> (\<exists>p q. s = p @ w @ q)"
proof (induction s)
  case Nil
  then show ?case by auto
next
  case (Cons c cs)
  show ?case
  proof
    assume "contains w (c # cs)"
    then consider "prefix w (c # cs)" | "contains w cs" by auto
    then show "\<exists>p q. c # cs = p @ w @ q"
    proof cases
      case 1
      then obtain q where "c # cs = w @ q" by (auto simp: prefix_def)
      then have "c # cs = [] @ w @ q" by simp
      then show ?thesis by blast
    next
      case 2
      with Cons.IH obtain p q where "cs = p @ w @ q" by blast
      then have "c # cs = (c # p) @ w @ q" by simp
      then show ?thesis by blast
    qed
  next
    assume "\<exists>p q. c # cs = p @ w @ q"
    then obtain p q where pq: "c # cs = p @ w @ q" by blast
    show "contains w (c # cs)"
    proof (cases p)
      case Nil
      with pq have "prefix w (c # cs)" by (simp add: prefix_def)
      then show ?thesis by simp
    next
      case (Cons a p')
      with pq have "cs = p' @ w @ q" by simp
      with Cons.IH have "contains w cs" by blast
      then show ?thesis by simp
    qed
  qed
qed

lemma str_upper_append: "str_upper (a @ b) = str_upper a @ str_upper b"
  by (simp add: str_upper_def)

lemma contains_upper: "contains w s \<Longrightarrow> contains (str_upper w) (str_upper s)"
proof -
  assume "contains w s"
  then obtain p q where "s = p @ w @ q" by (auto simp: contains_iff)
  then have "str_upper s = str_upper p @ str_upper w @ str_upper q"
    by (simp add: str_upper_append)
  then show ?thesis unfolding contains_iff by blast
qed

lemma dropWhile_keeps:
  assumes "w \<noteq> []" "\<not> P (hd w)"
  shows "\<exists>p'. dropWhile P (p @ w @ q) = p' @ w @ q"
proof (cases "\<forall>x\<in>set p. P x")
  case True
  from assms obtain c w' where w: "w = c # w'" "\<not> P c" by (cases w) auto
  from True have "dropWhile P (p @ w @ q) = dropWhile P (w @ q)"
    by (simp add: dropWhile_append)
  also have "\<dots> = [] @ w @ q" using w by simp
  finally show ?thesis by blast
next
  case False
  then have "dropWhile P (p @ w @ q) = dropWhile P p @ w @ q"
    by (auto simp: dropWhile_append)
  then show ?thesis by blast
qed

text \<open>Stripping a text keeps a word inside it that neither starts nor ends with white
  space.\<close>

lemma strip_keeps:
  assumes "w \<noteq> []" "\<not> isspace (hd w)" "\<not> isspace (last w)"
  shows "\<exists>p' q'. str_strip (p @ w @ q) = p' @ w @ q'"
proof -
  from dropWhile_keeps[of w isspace p q] assms obtain p' where
    1: "dropWhile isspace (p @ w @ q) = p' @ w @ q" by blast
  have rw: "rev w \<noteq> []" "\<not> isspace (hd (rev w))"
    using assms by (simp_all add: hd_rev)
  from dropWhile_keeps[of "rev w" isspace "rev q" "rev p'"] rw obtain q' where
    2: "dropWhile isspace (rev q @ rev w @ rev p') = q' @ rev w @ rev p'" by blast
  have "str_strip (p @ w @ q) = rev (dropWhile isspace (rev q @ rev w @ rev p'))"
    by (simp add: str_strip_def 1)
  also have "\<dots> = p' @ w @ rev q'" by (simp add: 2)
  finally show ?thesis by blast
qed

lemma isspace_upper_char: "isspace c \<Longrightarrow> upper_char c = [c]"
  by (auto simp: isspace_def upper_char_def Let_def)

lemma in_upper: "c \<in> set w \<Longrightarrow> isspace c \<Longrightarrow> c \<in> set (str_upper w)"
proof -
  assume "c \<in> set w" "isspace c"
  then have "c \<in> set w \<and> c \<in> set (upper_char c)" by (simp add: isspace_upper_char)
  then show ?thesis unfolding str_upper_def by auto
qed

lemma approved_no_space:
  assumes "str_upper w = ''APPROVED''" "c \<in> set w"
  shows "\<not> isspace c"
proof
  assume sp: "isspace c"
  with assms(2) have "c \<in> set (str_upper w)" by (simp add: in_upper)
  with assms(1) have "c \<in> set ''APPROVED''" by simp
  with sp show False by (auto simp: isspace_def)
qed

section \<open>Retrieval: auxiliary facts\<close>

lemma set_sort_by_relevance: "set (sort_by_relevance xs) = set xs"
  by (simp add: sort_by_relevance_def)

lemma descending_sort_by_relevance: "descending (sort_by_relevance xs)"
proof -
  have "sorted (map relevance_score (sort_key relevance_score (rev xs)))"
    by (rule sorted_sort_key)
  then have "sorted_wrt (\<lambda>a b. relevance_score a \<le> relevance_score b) (sort_key relevance_score (rev xs))"
    by (simp add: sorted_map)
  then show ?thesis
    by (simp add: descending_def sort_by_relevance_def sorted_wrt_rev)
qed

lemma descending_take: "descending xs \<Longrightarrow> descending (take k xs)"
  by (simp add: descending_def sorted_wrt_take)

lemma collect_results_threshold:
  "collect_results documents cat m idx sims = Inr rs \<Longrightarrow> d \<in> set rs \<Longrightarrow> m \<le> relevance_score d"
proof (induction sims arbitrary: idx rs)
  case Nil
  then show ?case by simp
next
  case (Cons sim sims)
  show ?case
  proof (cases "sim \<ge> m")
    case True
    with Cons.prems(1) obtain rs' where
      rs': "collect_results documents cat m (Suc idx) sims = Inr rs'"
      and rs: "rs = \<lparr> content = kb_content (documents ! idx),
                       source = (case kb_source (documents ! idx) of
                                   Some src \<Rightarrow> src
                                 | None \<Rightarrow> cat @ ''_doc_'' @ str_nat idx),
                       relevance_score = sim,
                       doc_category = cat \<rparr> # rs'"
      by (auto split: if_splits sum.splits)
    from Cons.prems(2) rs consider "relevance_score d = sim" | "d \<in> set rs'" by auto
    then show ?thesis
    proof cases
      case 1
      with True show ?thesis by simp
    next
      case 2
      with Cons.IH[OF rs'] show ?thesis by simp
    qed
  next
    case False
    with Cons.prems(1) have "collect_results documents cat m (Suc idx) sims = Inr rs" by simp
    with Cons.IH Cons.prems(2) show ?thesis by blast
  qed
qed

lemma search_category_threshold:
  assumes "d \<in> set (search_category rag query cat k m)"
  shows "m \<le> relevance_score d"
proof (cases "document_stores rag cat")
  case None
  with assms show ?thesis by (simp add: search_category_def)
next
  case (Some documents)
  show ?thesis
  proof (cases "similarities rag query cat")
    case (Inl e)
    with Some assms show ?thesis by (simp add: search_category_def split: if_splits)
  next
    case (Inr sims)
    show ?thesis
    proof (cases "collect_results documents cat m 0 sims")
      case (Inl e)
      with Some Inr assms show ?thesis by (simp add: search_category_def split: if_splits)
    next
      case (Inr results)
      with Some \<open>similarities rag query cat = Inr sims\<close> assms
      have "d \<in> set (take k (sort_by_relevance results))"
        by (simp add: search_category_def split: if_splits)
      then have "d \<in> set results"
        by (auto simp: set_sort_by_relevance dest: in_set_takeD)
      with Inr show ?thesis by (rule collect_results_threshold)
    qed
  qed
qed

lemma search_related_threshold:
  "\<forall>d\<in>set acc. m \<le> relevance_score d \<Longrightarrow>
   d \<in> set (search_related rag query k rem m cats acc) \<Longrightarrow> m \<le> relevance_score d"
proof (induction cats arbitrary: acc)
  case Nil
  then show ?case by simp
next
  case (Cons c cats)
  let ?acc' = "acc @ search_category rag query c rem m"
  have acc': "\<forall>d\<in>set ?acc'. m \<le> relevance_score d"
    using Cons.prems(1) by (auto dest: search_category_threshold)
  show ?case
  proof (cases "document_stores rag c \<noteq> None")
    case True
    show ?thesis
    proof (cases "length ?acc' \<ge> k")
      case True
      with \<open>document_stores rag c \<noteq> None\<close> Cons.prems(2) have "d \<in> set ?acc'"
        by (simp add: Let_def)
      with acc' show ?thesis by blast
    next
      case False
      with \<open>document_stores rag c \<noteq> None\<close> Cons.prems(2)
      have "d \<in> set (search_related rag query k rem m cats ?acc')"
        by (simp add: Let_def)
      with Cons.IH[OF acc'] show ?thesis by blast
    qed
  next
    case False
    with Cons.prems(2) have "d \<in> set (search_related rag query k rem m cats acc)" by simp
    with Cons.IH[OF Cons.prems(1)] show ?thesis by blast
  qed
qed

lemma retrieve_context_length: "length (retrieve_context rag query cat k rel m) \<le> k"
  by (simp add: retrieve_context_def Let_def)

lemma retrieve_context_descending: "descending (retrieve_context rag query cat k rel m)"
  by (simp add: retrieve_context_def Let_def descending_take descending_sort_by_relevance)

lemma retrieve_context_threshold:
  assumes "d \<in> set (retrieve_context rag query cat k rel m)"
  shows "m \<le> relevance_score d"
proof -
  define primary where "primary =
            (if document_stores rag cat \<noteq> None
             then search_category rag query cat k m
             else if document_stores rag ''General'' \<noteq> None
             then search_category rag query ''General'' k m
             else [])"
  define all_results where "all_results =
            (if rel \<and> length primary < k
             then search_related rag query k (k - length primary) m
                    (get_related_categories cat) primary
             else primary)"
  have p: "\<forall>d\<in>set primary. m \<le> relevance_score d"
    unfolding primary_def by (auto dest: search_category_threshold)
  have a: "\<forall>d\<in>set all_results. m \<le> relevance_score d"
    unfolding all_results_def using p search_related_threshold[OF p] by auto
  have "retrieve_context rag query cat k rel m = take k (sort_by_relevance all_results)"
    unfolding retrieve_context_def all_results_def primary_def Let_def by (rule refl)
  with assms have "d \<in> set all_results"
    by (auto simp: set_sort_by_relevance dest: in_set_takeD)
  with a show ?thesis by blast
qed

lemma search_category_fails:
  "similarities rag query cat = Inl e \<Longrightarrow> search_category rag query cat k m = []"
  by (simp add: search_category_def split: option.splits)

lemma search_related_fails:
  "\<forall>c. isl (similarities rag query c) \<Longrightarrow> search_related rag query k rem m cats [] = []"
proof (induction cats)
  case Nil
  then show ?case by simp
next
  case (Cons c cats)
  from Cons.prems have "search_category rag query c rem m = []"
    by (cases "similarities rag query c") (auto simp: search_category_fails dest: spec[of _ c])
  with Cons show ?case by (cases k) (simp_all add: Let_def)
qed

lemma sort_by_relevance_Nil: "sort_by_relevance [] = []"
  by (simp add: sort_by_relevance_def)

lemma retrieve_context_fails:
  assumes "\<forall>c. isl (similarities rag query c)"
  shows "retrieve_context rag query cat k rel m = []"
proof -
  have sc: "search_category rag query c k' m = []" for c k'
    using assms by (cases "similarities rag query c") (auto simp: search_category_fails dest: spec[of _ c])
  show ?thesis
    by (simp add: retrieve_context_def Let_def sc search_related_fails[OF assms] sort_by_relevance_Nil)
qed

section \<open>The review stage\<close>

lemma no_verdict_approved:
  "no_verdict r \<Longrightarrow> rr_status (GeminiClient_review_response r) = ''approved''"
  by (auto simp: no_verdict_def GeminiClient_review_response_def
      split: http_result.splits option.splits)

text \<open>
  Claim C7. Every execution of the review stage appends exactly one \<open>ReviewFeedback\<close>
  entry, whose \<open>attempt\<close> is the length of \<open>review_feedback\<close> before the append plus one.
  When the awaited reviewer call raises, and when the client's request fails or its
  reply holds no verdict, the entry appended has status \<open>approved\<close>.
\<close>

theorem review_appends_one_entry:
  "(\<exists>entry. review_feedback (review_response_node cmp now s) = review_feedback s @ [entry]
       \<and> attempt entry = length (review_feedback s) + 1)
   \<and> (current_draft s = Some d \<and> d \<noteq> []
         \<and> review_response client (subject (ticket s)) (description (ticket s)) d
              (retrieved_context s) = Inl e
       \<longrightarrow> rf_status (last (review_feedback (review_response_node
              \<lparr> gemini_client = Some client, rag_system = rs \<rparr> now s))) = ''approved'')
   \<and> (current_draft s = Some d \<and> d \<noteq> []
         \<and> no_verdict (pr (subject (ticket s)) (description (ticket s)) d (retrieved_context s))
       \<longrightarrow> rf_status (last (review_feedback (review_response_node
              \<lparr> gemini_client = Some (GeminiClient pc dr pr), rag_system = rs \<rparr> now s)))
             = ''approved'')"
proof (intro conjI impI)
  show "\<exists>entry. review_feedback (review_response_node cmp now s) = review_feedback s @ [entry]
       \<and> attempt entry = length (review_feedback s) + 1"
    by (simp add: review_response_node_def log_state_transition_def Let_def split: sum.splits)
next
  assume "current_draft s = Some d \<and> d \<noteq> []
         \<and> review_response client (subject (ticket s)) (description (ticket s)) d
              (retrieved_context s) = Inl e"
  then show "rf_status (last (review_feedback (review_response_node
              \<lparr> gemini_client = Some client, rag_system = rs \<rparr> now s))) = ''approved''"
    by (simp add: review_response_node_def log_state_transition_def Let_def)
next
  assume a: "current_draft s = Some d \<and> d \<noteq> []
         \<and> no_verdict (pr (subject (ticket s)) (description (ticket s)) d (retrieved_context s))"
  then have "rr_status (GeminiClient_review_response
       (pr (subject (ticket s)) (description (ticket s)) d (retrieved_context s))) = ''approved''"
    by (simp add: no_verdict_approved)
  with a show "rf_status (last (review_feedback (review_response_node
              \<lparr> gemini_client = Some (GeminiClient pc dr pr), rag_system = rs \<rparr> now s)))
             = ''approved''"
    by (simp add: review_response_node_def log_state_transition_def Let_def GeminiClient_def)
qed

text \<open>The three parts at a state with one rejected review: a client whose call raises and
  a client whose request fails both add a second entry, numbered 2 and approved.\<close>

theorem review_appends_one_entry_witness:
  "current_draft rejected_state = Some ''A draft''
   \<and> review_response raising_client (subject (ticket rejected_state))
        (description (ticket rejected_state)) ''A draft'' (retrieved_context rejected_state)
      = Inl Exception
   \<and> no_verdict Transport_error
   \<and> map attempt (review_feedback (review_response_node
        \<lparr> gemini_client = Some raising_client, rag_system = None \<rparr> sample_clock rejected_state))
      = [1, 2]
   \<and> map rf_status (review_feedback (review_response_node
        \<lparr> gemini_client = Some raising_client, rag_system = None \<rparr> sample_clock rejected_state))
      = [''rejected'', ''approved'']
   \<and> rf_status (last (review_feedback (review_response_node
        \<lparr> gemini_client = Some (GeminiClient (\<lambda>subj desc. Transport_error)
            (\<lambda>t cat docs feedback. Inr ''A draft'') (\<lambda>subj desc draft docs. Transport_error)),
          rag_system = None \<rparr> sample_clock rejected_state)))
      = ''approved''"
proof -
  have d: "current_draft rejected_state = Some ''A draft''"
    by (simp add: rejected_state_def drafted_state_def)
  have r: "review_response raising_client (subject (ticket rejected_state))
        (description (ticket rejected_state)) ''A draft'' (retrieved_context rejected_state)
      = Inl Exception"
    by (simp add: raising_client_def)
  have n: "no_verdict Transport_error"
    by (simp add: no_verdict_def)
  have a: "map attempt (review_feedback (review_response_node
        \<lparr> gemini_client = Some raising_client, rag_system = None \<rparr> sample_clock rejected_state))
      = [1, 2]"
    by code_simp
  have st: "map rf_status (review_feedback (review_response_node
        \<lparr> gemini_client = Some raising_client, rag_system = None \<rparr> sample_clock rejected_state))
      = [''rejected'', ''approved'']"
    by code_simp
  from review_appends_one_entry[where s = rejected_state and d = "''A draft''"
      and client = raising_client and e = Exception and rs = None and now = sample_clock
      and pr = "\<lambda>subj desc draft docs. Transport_error"
      and pc = "\<lambda>subj desc. Transport_error"
      and dr = "\<lambda>t cat docs feedback. Inr ''A draft''"]
    d r n a st
  show ?thesis by simp
qed

text \<open>
  Claim C10. In \<open>GeminiClient.review_response\<close> the test for \<open>APPROVED\<close> comes first: a
  reply with status 200 whose text contains the word \<open>approved\<close> in any casing is an
  approval, whatever else the text holds.
\<close>

theorem approved_checked_before_rejected:
  assumes "contains w text" and "str_upper w = ''APPROVED''"
  shows "GeminiClient_review_response (Http_reply 200 (Some text)) =
           \<lparr> rr_status = ''approved'', rr_feedback = ''Response meets quality standards'' \<rparr>"
proof -
  from assms(2) have ne: "w \<noteq> []" by (auto simp: str_upper_def)
  then have "hd w \<in> set w" "last w \<in> set w" by simp_all
  with assms(2) have "\<not> isspace (hd w)" "\<not> isspace (last w)"
    by (auto dest: approved_no_space)
  moreover from assms(1) obtain p q where "text = p @ w @ q" by (auto simp: contains_iff)
  ultimately obtain p' q' where "str_strip text = p' @ w @ q'"
    using strip_keeps[OF ne] by blast
  then have "contains w (str_strip text)" by (auto simp: contains_iff)
  then have "contains ''APPROVED'' (str_upper (str_strip text))"
    using contains_upper assms(2) by fastforce
  then show ?thesis by (simp add: GeminiClient_review_response_def)
qed

text \<open>A reply that says ``Not Approved'' and holds a rejection too is an approval.\<close>

theorem approved_checked_before_rejected_witness:
  "contains ''Approved'' ''Not Approved. REJECTED: the draft is too vague''
   \<and> str_upper ''Approved'' = ''APPROVED''
   \<and> contains ''REJECTED'' (str_upper ''Not Approved. REJECTED: the draft is too vague'')
   \<and> rr_status (GeminiClient_review_response
        (Http_reply 200 (Some ''Not Approved. REJECTED: the draft is too vague''))) = ''approved''"
proof -
  have c: "contains ''Approved'' ''Not Approved. REJECTED: the draft is too vague''"
    by code_simp
  have u: "str_upper ''Approved'' = ''APPROVED''"
    by code_simp
  have r: "contains ''REJECTED'' (str_upper ''Not Approved. REJECTED: the draft is too vague'')"
    by code_simp
  from approved_checked_before_rejected[OF c u] c u r show ?thesis by simp
qed

section \<open>The retrieval stages\<close>

text \<open>
  Claim C8. \<open>retrieve_context\<close> yields at most \<open>top_k\<close> documents, each of relevance at
  least \<open>min_relevance\<close>, in descending order of relevance; so the context-retrieval
  stage over \<open>RAGSystem\<close> yields at most 3 documents, each of relevance at least 0.1, in
  descending order. When the similarity computation raises for every category, when the
  awaited call raises, and when there is no retrieval system, \<open>retrieved_context\<close> is the
  empty list. (A score is a floating-point number that is only compared; no floating-point
  number lies between the real 0.1 and the constant \<open>0.1\<close> of the source, nor between 0.05
  and \<open>0.05\<close>, so the comparisons are those of the reals.)
\<close>

theorem retrieved_context_bounded_sorted:
  "length (retrieve_context rag query cat top_k include_related min_relevance) \<le> top_k
   \<and> (\<forall>d \<in> set (retrieve_context rag query cat top_k include_related min_relevance).
        relevance_score d \<ge> min_relevance)
   \<and> descending (retrieve_context rag query cat top_k include_related min_relevance)
   \<and> length (retrieved_context (retrieve_context_node
       \<lparr> gemini_client = g, rag_system = Some (RAGSystem_retriever rag) \<rparr> now s)) \<le> 3
   \<and> (\<forall>d \<in> set (retrieved_context (retrieve_context_node
         \<lparr> gemini_client = g, rag_system = Some (RAGSystem_retriever rag) \<rparr> now s)).
        relevance_score d \<ge> 1 / 10)
   \<and> descending (retrieved_context (retrieve_context_node
       \<lparr> gemini_client = g, rag_system = Some (RAGSystem_retriever rag) \<rparr> now s))
   \<and> ((\<forall>c. isl (similarities rag (enhance_query (subject (ticket s)) (description (ticket s))) c))
      \<longrightarrow> retrieved_context (retrieve_context_node
            \<lparr> gemini_client = g, rag_system = Some (RAGSystem_retriever rag) \<rparr> now s) = [])
   \<and> (retrieve (enhance_query (subject (ticket s)) (description (ticket s))) (category s)
         3 True (1 / 10) = Inl e
      \<longrightarrow> retrieved_context (retrieve_context_node
            \<lparr> gemini_client = g, rag_system = Some retrieve \<rparr> now s) = [])
   \<and> retrieved_context (retrieve_context_node
       \<lparr> gemini_client = g, rag_system = None \<rparr> now s) = []"
proof -
  define q where "q = enhance_query (subject (ticket s)) (description (ticket s))"
  have node: "retrieved_context (retrieve_context_node
       \<lparr> gemini_client = g, rag_system = Some (RAGSystem_retriever rag) \<rparr> now s)
     = retrieve_context rag q (category s) 3 True (1 / 10)"
    by (simp add: retrieve_context_node_def RAGSystem_retriever_def log_state_transition_def
        Let_def q_def)
  have 1: "length (retrieve_context rag q (category s) 3 True (1 / 10)) \<le> 3"
    by (rule retrieve_context_length)
  have 2: "\<forall>d \<in> set (retrieve_context rag q (category s) 3 True (1 / 10)).
      relevance_score d \<ge> 1 / 10"
    by (blast dest: retrieve_context_threshold)
  have 3: "descending (retrieve_context rag q (category s) 3 True (1 / 10))"
    by (rule retrieve_context_descending)
  have 4: "(\<forall>c. isl (similarities rag q c))
      \<longrightarrow> retrieve_context rag q (category s) 3 True (1 / 10) = []"
    by (simp add: retrieve_context_fails)
  have 5: "retrieve q (category s) 3 True (1 / 10) = Inl e
      \<longrightarrow> retrieved_context (retrieve_context_node
            \<lparr> gemini_client = g, rag_system = Some retrieve \<rparr> now s) = []"
    by (simp add: retrieve_context_node_def log_state_transition_def Let_def q_def)
  have 6: "retrieved_context (retrieve_context_node
       \<lparr> gemini_client = g, rag_system = None \<rparr> now s) = []"
    by (simp add: retrieve_context_node_def log_state_transition_def Let_def)
  have 7: "length (retrieve_context rag query cat top_k include_related min_relevance) \<le> top_k"
    by (rule retrieve_context_length)
  have 8: "\<forall>d \<in> set (retrieve_context rag query cat top_k include_related min_relevance).
      relevance_score d \<ge> min_relevance"
    by (blast dest: retrieve_context_threshold)
  have 9: "descending (retrieve_context rag query cat top_k include_related min_relevance)"
    by (rule retrieve_context_descending)
  from 1 2 3 4 5 6 7 8 9 show ?thesis
    unfolding node q_def[symmetric] by blast
qed

text \<open>On the sample stores the stage keeps the three best of the four Billing documents
  that pass the threshold; the broken stores and the raising retriever give no document.\<close>

theorem retrieved_context_bounded_sorted_witness:
  "map relevance_score (retrieve_context sample_rag ''refund'' ''Billing'' 5 True (5 / 100))
     = [9 / 10, 5 / 10, 3 / 10, 2 / 10, 5 / 100]
   \<and> descending (retrieve_context sample_rag ''refund'' ''Billing'' 5 True (5 / 100))
   \<and> map relevance_score (retrieved_context (retrieve_context_node
       \<lparr> gemini_client = None, rag_system = Some (RAGSystem_retriever sample_rag) \<rparr>
       sample_clock classified_state)) = [9 / 10, 5 / 10, 3 / 10]
   \<and> descending (retrieved_context (retrieve_context_node
       \<lparr> gemini_client = None, rag_system = Some (RAGSystem_retriever sample_rag) \<rparr>
       sample_clock classified_state))
   \<and> (\<forall>c. isl (similarities broken_rag
         (enhance_query (subject (ticket classified_state)) (description (ticket classified_state))) c))
   \<and> retrieved_context (retrieve_context_node
       \<lparr> gemini_client = None, rag_system = Some (RAGSystem_retriever broken_rag) \<rparr>
       sample_clock classified_state) = []
   \<and> raising_retriever
        (enhance_query (subject (ticket classified_state)) (description (ticket classified_state)))
        (category classified_state) 3 True (1 / 10) = Inl Exception
   \<and> retrieved_context (retrieve_context_node
       \<lparr> gemini_client = None, rag_system = Some raising_retriever \<rparr>
       sample_clock classified_state) = []"
proof -
  have v: "map relevance_score (retrieved_context (retrieve_context_node
       \<lparr> gemini_client = None, rag_system = Some (RAGSystem_retriever sample_rag) \<rparr>
       sample_clock classified_state)) = [9 / 10, 5 / 10, 3 / 10]"
    by code_simp
  have b: "\<forall>c. isl (similarities broken_rag
         (enhance_query (subject (ticket classified_state)) (description (ticket classified_state))) c)"
    by (simp add: broken_rag_def)
  have r: "raising_retriever
        (enhance_query (subject (ticket classified_state)) (description (ticket classified_state)))
        (category classified_state) 3 True (1 / 10) = Inl Exception"
    by (simp add: raising_retriever_def)
  have w: "map relevance_score (retrieve_context sample_rag ''refund'' ''Billing'' 5 True (5 / 100))
     = [9 / 10, 5 / 10, 3 / 10, 2 / 10, 5 / 100]"
    by code_simp
  from retrieved_context_bounded_sorted[where g = None and rag = sample_rag
      and now = sample_clock and s = classified_state and retrieve = raising_retriever
      and e = Exception and query = "''refund''" and cat = "''Billing''" and top_k = 5
      and include_related = True and min_relevance = "5 / 100"] w
    retrieved_context_bounded_sorted[where g = None and rag = broken_rag
      and now = sample_clock and s = classified_state]
    v b r
  show ?thesis by simp
qed

text \<open>The except branch of \<open>refine_context_node\<close> keeps the old documents; the retriever
  over \<open>RAGSystem\<close> never takes the node there, because it does not raise.\<close>

lemma refine_context_call_raises:
  "retrieve (enhanced_query s) (category s) 5 True (5 / 100) = Inl e \<Longrightarrow>
   retrieved_context (refine_context_node
     \<lparr> gemini_client = g, rag_system = Some retrieve \<rparr> now s) = retrieved_context s"
  by (simp add: refine_context_node_def log_state_transition_def Let_def)

lemma RAGSystem_retriever_returns:
  "RAGSystem_retriever rag query cat top_k include_related min_relevance \<noteq> Inl e"
  by (simp add: RAGSystem_retriever_def)



section \<open>The retry loop\<close>

text \<open>No node changes \<open>retries\<close>, so a run of the graph ends with the value it started
  with.\<close>

lemma retries_log [simp]: "retries (log_state_transition stamp s n a) = retries s"
  by (simp add: log_state_transition_def Let_def)

lemma retries_exec_node: "retries (fst (exec_node cmp now n cfg)) = retries (fst cfg)"
proof (cases n)
  case Classify_ticket
  then show ?thesis
    by (simp add: classify_ticket_node_def Let_def split: sum.splits option.splits)
next
  case Retrieve_context
  then show ?thesis
    by (simp add: retrieve_context_node_def Let_def split: sum.splits option.splits)
next
  case Generate_response
  then show ?thesis
    by (simp add: generate_response_node_def Let_def split: sum.splits option.splits)
next
  case Review_response
  then show ?thesis
    by (simp add: review_response_node_def Let_def split: sum.splits option.splits)
next
  case Refine_context
  then show ?thesis
    by (simp add: refine_context_node_def Let_def split: sum.splits option.splits)
next
  case Escalate_ticket
  then show ?thesis
    by (simp add: escalate_ticket_node_def Let_def)
next
  case Finalize_response
  then show ?thesis
    by (simp add: finalize_response_node_def)
qed

lemma retries_run_graph:
  "retries (fst (snd (run_graph cmp clk fuel i n cfg))) = retries (fst cfg)"
proof (induction fuel arbitrary: i n cfg)
  case 0
  then show ?case by simp
next
  case (Suc fuel)
  show ?case
  proof (cases n)
    case None
    then show ?thesis by simp
  next
    case (Some m)
    then show ?thesis
      by (simp add: Let_def Suc.IH retries_exec_node)
  qed
qed

lemma rejecting_verdict:
  "rr_status (GeminiClient_review_response (Http_reply 200 (Some ''REJECTED: too vague'')))
     = ''rejected''"
  by code_simp

lemma rejecting_generate:
  "current_draft (generate_response_node \<lparr> gemini_client = Some rejecting_client, rag_system = rs \<rparr> now s)
     = Some ''A draft''"
  by (simp add: generate_response_node_def rejecting_client_def GeminiClient_def
      log_state_transition_def Let_def)

lemma rejecting_review:
  "current_draft s = Some ''A draft'' \<Longrightarrow>
   review_status (review_response_node \<lparr> gemini_client = Some rejecting_client, rag_system = rs \<rparr> now s)
     = Some ''rejected''"
  by (simp add: review_response_node_def rejecting_client_def GeminiClient_def
      log_state_transition_def Let_def rejecting_verdict)

lemma rejecting_loop:
  "retries (fst cfg) < 2 \<Longrightarrow>
   fst (run_graph \<lparr> gemini_client = Some rejecting_client, rag_system = rs \<rparr> clk fuel i
          (Some Generate_response) cfg) \<noteq> None
   \<and> fst (run_graph \<lparr> gemini_client = Some rejecting_client, rag_system = rs \<rparr> clk fuel i
          (Some Refine_context) cfg) \<noteq> None
   \<and> (current_draft (fst cfg) = Some ''A draft'' \<longrightarrow>
        fst (run_graph \<lparr> gemini_client = Some rejecting_client, rag_system = rs \<rparr> clk fuel i
          (Some Review_response) cfg) \<noteq> None)"
proof (induction fuel arbitrary: i cfg)
  case 0
  then show ?case by simp
next
  case (Suc fuel)
  let ?cmp = "\<lparr> gemini_client = Some rejecting_client, rag_system = rs \<rparr>"
  have r: "retries (fst (exec_node ?cmp (clk i) n cfg)) < 2" for n
    using Suc.prems by (simp add: retries_exec_node)
  have g: "fst (run_graph ?cmp clk (Suc fuel) i (Some Generate_response) cfg) \<noteq> None"
  proof -
    let ?cfg = "exec_node ?cmp (clk i) Generate_response cfg"
    have "current_draft (fst ?cfg) = Some ''A draft''"
      by (simp add: rejecting_generate)
    with Suc.IH[OF r[of Generate_response], where i = "Suc i"] show ?thesis
      by (simp add: Let_def)
  qed
  have f: "fst (run_graph ?cmp clk (Suc fuel) i (Some Refine_context) cfg) \<noteq> None"
    using Suc.IH[OF r[of Refine_context], where i = "Suc i"] by (simp add: Let_def)
  have v: "fst (run_graph ?cmp clk (Suc fuel) i (Some Review_response) cfg) \<noteq> None"
    if d: "current_draft (fst cfg) = Some ''A draft''"
  proof -
    let ?cfg = "exec_node ?cmp (clk i) Review_response cfg"
    have "review_status (fst ?cfg) = Some ''rejected''"
      using d by (simp add: rejecting_review)
    moreover have "retries (fst ?cfg) < 2" by (rule r)
    ultimately have "review_routing (fst ?cfg) = Refine_context"
      by (simp add: review_routing_def)
    with Suc.IH[OF r[of Review_response], where i = "Suc i"] show ?thesis
      by (simp add: Let_def)
  qed
  from g f v show ?case by blast
qed

lemma rejecting_run:
  "fst (run_graph \<lparr> gemini_client = Some rejecting_client, rag_system = rs \<rparr> clk fuel 0
          (Some Classify_ticket) (create_initial_state now t, f)) \<noteq> None"
proof -
  let ?cmp = "\<lparr> gemini_client = Some rejecting_client, rag_system = rs \<rparr>"
  let ?c0 = "(create_initial_state now t, f)"
  let ?c1 = "exec_node ?cmp (clk 0) Classify_ticket ?c0"
  let ?c2 = "exec_node ?cmp (clk 1) Retrieve_context ?c1"
  have "retries (fst ?c2) = retries (fst ?c1)" by (rule retries_exec_node)
  also have "\<dots> = retries (fst ?c0)" by (rule retries_exec_node)
  also have "\<dots> = 0" by (simp add: create_initial_state_def)
  finally have r2: "retries (fst ?c2) < 2" by simp
  show ?thesis
  proof (cases fuel)
    case 0
    then show ?thesis by simp
  next
    case (Suc m)
    note one = this
    show ?thesis
    proof (cases m)
      case 0
      with one show ?thesis by (simp add: Let_def)
    next
      case (Suc k)
      with one rejecting_loop[OF r2, where fuel = k and i = 2] show ?thesis
        by (simp add: Let_def numeral_2_eq_2)
    qed
  qed
qed

text \<open>
  Claim C1 says that every run ends after at most three generation attempts, resolved
  or escalated. With a reviewer that rejects every draft the graph never reaches \<open>END\<close>,
  whatever the number of node executions allowed: \<open>ainvoke\<close> raises for every recursion
  limit and the caller gets the status \<open>error\<close>. After 12 node executions there are
  already four drafts.
\<close>

theorem rejecting_reviewer_never_ends:
  "fst (run_graph \<lparr> gemini_client = Some rejecting_client, rag_system = rs \<rparr> clk fuel 0
          (Some Classify_ticket) (create_initial_state now t, f)) \<noteq> None
   \<and> fst (ainvoke \<lparr> gemini_client = Some rejecting_client, rag_system = rs \<rparr> clk
          recursion_limit (create_initial_state now t) f) = Inl GraphRecursionError
   \<and> o_status (fst (process_ticket_async \<lparr> gemini_client = Some rejecting_client, rag_system = rs \<rparr>
          str_exn now clk recursion_limit t f)) = ''error''
   \<and> length (drafts (fst (snd (run_graph rejecting_components (\<lambda>i. sample_clock) 12 0
          (Some Classify_ticket) (create_initial_state sample_clock sample_ticket, new_sink)))))
       = 4"
proof -
  let ?cmp = "\<lparr> gemini_client = Some rejecting_client, rag_system = rs \<rparr>"
  have run: "fst (run_graph ?cmp clk k 0 (Some Classify_ticket) (create_initial_state now t, f))
      \<noteq> None" for k
    by (rule rejecting_run)
  have inv: "fst (ainvoke ?cmp clk recursion_limit (create_initial_state now t) f)
      = Inl GraphRecursionError"
    using run[of "recursion_limit - 1"]
    by (cases "run_graph ?cmp clk (recursion_limit - 1) 0 (Some Classify_ticket)
          (create_initial_state now t, f)") (auto simp: ainvoke_def)
  have out: "o_status (fst (process_ticket_async ?cmp str_exn now clk recursion_limit t f))
      = ''error''"
    using inv
    by (cases "ainvoke ?cmp clk recursion_limit (create_initial_state now t) f")
      (simp add: process_ticket_async_def Let_def)
  have four: "length (drafts (fst (snd (run_graph rejecting_components (\<lambda>i. sample_clock) 12 0
          (Some Classify_ticket) (create_initial_state sample_clock sample_ticket, new_sink)))))
       = 4"
    by code_simp
  from run inv out four show ?thesis by blast
qed

text \<open>
  Claim C2 says that the transition to \<open>refine_context\<close> adds one to \<open>retries\<close> and that a
  third rejection goes to escalation. A run leaves \<open>retries\<close> as it found it: on the
  sample ticket three rejected reviews are followed by \<open>refine_context\<close> again. The
  function that would add one exists and is not part of the graph.
\<close>

theorem retries_never_incremented:
  "retries (fst (snd (run_graph cmp clk fuel i n cfg))) = retries (fst cfg)
   \<and> fst (run_graph rejecting_components (\<lambda>i. sample_clock) 10 0
          (Some Classify_ticket) (create_initial_state sample_clock sample_ticket, new_sink))
       = Some Refine_context
   \<and> map rf_status (review_feedback (fst (snd (run_graph rejecting_components
          (\<lambda>i. sample_clock) 10 0 (Some Classify_ticket)
          (create_initial_state sample_clock sample_ticket, new_sink)))))
       = [''rejected'', ''rejected'', ''rejected'']
   \<and> retries (increment_retry_and_generate (fst cfg)) = retries (fst cfg) + 1"
proof -
  have 1: "retries (fst (snd (run_graph cmp clk fuel i n cfg))) = retries (fst cfg)"
    by (rule retries_run_graph)
  have 2: "fst (run_graph rejecting_components (\<lambda>i. sample_clock) 10 0
          (Some Classify_ticket) (create_initial_state sample_clock sample_ticket, new_sink))
       = Some Refine_context"
    by code_simp
  have 3: "map rf_status (review_feedback (fst (snd (run_graph rejecting_components
          (\<lambda>i. sample_clock) 10 0 (Some Classify_ticket)
          (create_initial_state sample_clock sample_ticket, new_sink)))))
       = [''rejected'', ''rejected'', ''rejected'']"
    by code_simp
  have 4: "retries (increment_retry_and_generate (fst cfg)) = retries (fst cfg) + 1"
    by (simp add: increment_retry_and_generate_def)
  from 1 2 3 4 show ?thesis by blast
qed

text \<open>
  Claim C3 says that \<open>len(drafts) = 1 + retries\<close> at every terminal state. With a reviewer
  that rejects the first draft and approves the second, the run ends resolved with two
  drafts and \<open>retries = 0\<close>.
\<close>

theorem resolved_with_two_drafts_and_no_retry:
  "o_status (fst (process_ticket_async second_try_components sample_str_exn sample_clock
       (\<lambda>i. sample_clock) 25 sample_ticket new_sink)) = ''resolved''
   \<and> o_drafts (fst (process_ticket_async second_try_components sample_str_exn sample_clock
       (\<lambda>i. sample_clock) 25 sample_ticket new_sink)) = [''First draft'', ''Second draft'']
   \<and> o_retries (fst (process_ticket_async second_try_components sample_str_exn sample_clock
       (\<lambda>i. sample_clock) 25 sample_ticket new_sink)) = 0"
proof -
  have 1: "o_status (fst (process_ticket_async second_try_components sample_str_exn sample_clock
       (\<lambda>i. sample_clock) 25 sample_ticket new_sink)) = ''resolved''"
    by code_simp
  have 2: "o_drafts (fst (process_ticket_async second_try_components sample_str_exn sample_clock
       (\<lambda>i. sample_clock) 25 sample_ticket new_sink)) = [''First draft'', ''Second draft'']"
    by code_simp
  have 3: "o_retries (fst (process_ticket_async second_try_components sample_str_exn sample_clock
       (\<lambda>i. sample_clock) 25 sample_ticket new_sink)) = 0"
    by code_simp
  from 1 2 3 show ?thesis by blast
qed

section \<open>Validation\<close>

text \<open>
  Claim C5 says that a malformed ticket is rejected before the workflow starts.
  \<open>validate_ticket_input\<close> rejects a ticket whose subject has 201 characters, but
  \<open>process_ticket_async\<close> does not call it: the ticket gets a state, runs through the
  graph and comes back resolved with a draft.
\<close>

theorem oversized_ticket_is_processed:
  "validate_ticket_input oversized_ticket = (False, ''Subject must be 200 characters or less'')
   \<and> o_status (fst (process_ticket_async no_components sample_str_exn sample_clock
       (\<lambda>i. sample_clock) 25 oversized_ticket new_sink)) = ''resolved''
   \<and> length (o_drafts (fst (process_ticket_async no_components sample_str_exn sample_clock
       (\<lambda>i. sample_clock) 25 oversized_ticket new_sink))) = 1"
proof -
  have 1: "validate_ticket_input oversized_ticket
      = (False, ''Subject must be 200 characters or less'')"
    by code_simp
  have 2: "o_status (fst (process_ticket_async no_components sample_str_exn sample_clock
       (\<lambda>i. sample_clock) 25 oversized_ticket new_sink)) = ''resolved''"
    by code_simp
  have 3: "length (o_drafts (fst (process_ticket_async no_components sample_str_exn sample_clock
       (\<lambda>i. sample_clock) 25 oversized_ticket new_sink))) = 1"
    by code_simp
  from 1 2 3 show ?thesis by blast
qed

section \<open>Escalation\<close>

lemma sink_exec_node:
  "n \<noteq> Escalate_ticket \<Longrightarrow> snd (exec_node cmp now n cfg) = snd cfg"
  by (cases n) simp_all

lemma escalated_log [simp]: "escalated (log_state_transition stamp s n a) = escalated s"
  by (simp add: log_state_transition_def Let_def)

lemma escalate_sets_escalated: "escalated (fst (escalate_ticket_node now cfg))"
  by (simp add: escalate_ticket_node_def Let_def)

lemma written_only_when_escalated:
  "snd (snd (run_graph cmp clk fuel i n cfg)) \<noteq> snd cfg \<Longrightarrow>
   escalated (fst (snd (run_graph cmp clk fuel i n cfg)))"
proof (induction fuel arbitrary: i n cfg)
  case 0
  then show ?case by simp
next
  case (Suc fuel)
  show ?case
  proof (cases n)
    case None
    with Suc.prems show ?thesis by simp
  next
    case (Some m)
    show ?thesis
    proof (cases "m = Escalate_ticket")
      case True
      have "run_graph cmp clk (Suc fuel) i (Some Escalate_ticket) cfg
          = (None, escalate_ticket_node (clk i) cfg)"
        by (cases fuel) (simp_all add: Let_def)
      with True Some show ?thesis by (simp add: escalate_sets_escalated)
    next
      case False
      let ?cfg = "exec_node cmp (clk i) m cfg"
      from False have same: "snd ?cfg = snd cfg" by (rule sink_exec_node)
      have run: "run_graph cmp clk (Suc fuel) i n cfg
          = run_graph cmp clk fuel (Suc i) (next_node m (fst ?cfg)) ?cfg"
        using Some by (simp add: Let_def)
      with Suc.prems same
      have "snd (snd (run_graph cmp clk fuel (Suc i) (next_node m (fst ?cfg)) ?cfg)) \<noteq> snd ?cfg"
        by simp
      then have "escalated (fst (snd (run_graph cmp clk fuel (Suc i) (next_node m (fst ?cfg)) ?cfg)))"
        by (rule Suc.IH)
      with run show ?thesis by simp
    qed
  qed
qed

text \<open>
  Claim C4, amended. The escalation handler always returns \<open>escalated = True\<close>. When the
  log can be written it appends one row made of timestamp, subject, description, category,
  retries, review count and draft count (after the header, in a new file); when the log
  cannot be written it leaves the log as it is. No other node writes to the log: a run of
  the graph that has changed the log ends with \<open>escalated = True\<close>.
\<close>

theorem escalation_row_written:
  "escalated (fst (escalate_ticket_node now (s, f)))
   \<and> (writable f \<longrightarrow>
        rows (snd (escalate_ticket_node now (s, f)))
          = Some ((case rows f of None \<Rightarrow> [escalation_header] | Some old \<Rightarrow> old)
                  @ [escalation_row now s]))
   \<and> (\<not> writable f \<longrightarrow> snd (escalate_ticket_node now (s, f)) = f)
   \<and> (snd (snd (run_graph cmp clk fuel i n (s, f))) \<noteq> f \<longrightarrow>
        escalated (fst (snd (run_graph cmp clk fuel i n (s, f)))))"
proof (intro conjI impI)
  show "escalated (fst (escalate_ticket_node now (s, f)))"
    by (rule escalate_sets_escalated)
next
  assume "writable f"
  then show "rows (snd (escalate_ticket_node now (s, f)))
          = Some ((case rows f of None \<Rightarrow> [escalation_header] | Some old \<Rightarrow> old)
                  @ [escalation_row now s])"
    by (simp add: escalate_ticket_node_def save_escalation_log_def flattened_data_def
        escalation_header_def escalation_row_def Let_def split: option.splits)
next
  assume "\<not> writable f"
  then show "snd (escalate_ticket_node now (s, f)) = f"
    by (simp add: escalate_ticket_node_def save_escalation_log_def Let_def)
next
  assume "snd (snd (run_graph cmp clk fuel i n (s, f))) \<noteq> f"
  then have "snd (snd (run_graph cmp clk fuel i n (s, f))) \<noteq> snd (s, f)" by simp
  then show "escalated (fst (snd (run_graph cmp clk fuel i n (s, f))))"
    by (rule written_only_when_escalated)
qed

text \<open>The handler at a state with three rejected drafts, on a new log and on a log that
  cannot be written; and a run from the review stage of that state that escalates.\<close>

theorem escalation_row_written_witness:
  "writable new_sink
   \<and> rows (snd (escalate_ticket_node sample_clock (exhausted_state, new_sink)))
      = Some [ escalation_header,
               [ Text ''2024-01-01T00:00:00'', Text ''Refund request'',
                 Text ''I was charged twice'', Text ''Billing'', Number 2, Number 3, Number 3 ] ]
   \<and> \<not> writable blocked_sink
   \<and> snd (escalate_ticket_node sample_clock (exhausted_state, blocked_sink)) = blocked_sink
   \<and> snd (snd (run_graph rejecting_components (\<lambda>i. sample_clock) 3 0 (Some Review_response)
        (exhausted_state, new_sink))) \<noteq> new_sink
   \<and> escalated (fst (snd (run_graph rejecting_components (\<lambda>i. sample_clock) 3 0
        (Some Review_response) (exhausted_state, new_sink))))"
proof -
  have w: "writable new_sink" "\<not> writable blocked_sink" "rows new_sink = None"
    by (simp_all add: new_sink_def blocked_sink_def)
  have r: "escalation_row sample_clock exhausted_state
      = [ Text ''2024-01-01T00:00:00'', Text ''Refund request'',
          Text ''I was charged twice'', Text ''Billing'', Number 2, Number 3, Number 3 ]"
    by code_simp
  have g: "snd (snd (run_graph rejecting_components (\<lambda>i. sample_clock) 3 0 (Some Review_response)
        (exhausted_state, new_sink))) \<noteq> new_sink"
    by code_simp
  from escalation_row_written[where now = sample_clock and s = exhausted_state and f = new_sink
      and cmp = rejecting_components and clk = "\<lambda>i. sample_clock" and fuel = 3 and i = 0
      and n = "Some Review_response"]
    escalation_row_written[where now = sample_clock and s = exhausted_state and f = blocked_sink]
    w r g
  show ?thesis by simp
qed

text \<open>Claim C4 as stated fails: with a log that cannot be written the handler returns
  \<open>escalated = True\<close> and no row exists; and the row written to a new log has seven cells,
  with no count of context documents and no copy of drafts, feedback or sources.\<close>

theorem escalated_without_complete_row:
  "escalated (fst (escalate_ticket_node sample_clock (exhausted_state, blocked_sink)))
   \<and> rows (snd (escalate_ticket_node sample_clock (exhausted_state, blocked_sink))) = None
   \<and> rows (snd (escalate_ticket_node sample_clock (exhausted_state, new_sink)))
      = Some [ [ Text ''timestamp'', Text ''ticket_subject'', Text ''ticket_description'',
                 Text ''category'', Text ''retries'', Text ''review_count'', Text ''draft_count'' ],
               [ Text ''2024-01-01T00:00:00'', Text ''Refund request'',
                 Text ''I was charged twice'', Text ''Billing'', Number 2, Number 3, Number 3 ] ]"
proof -
  have 1: "escalated (fst (escalate_ticket_node sample_clock (exhausted_state, blocked_sink)))"
    by code_simp
  have 2: "rows (snd (escalate_ticket_node sample_clock (exhausted_state, blocked_sink))) = None"
    by code_simp
  have 3: "rows (snd (escalate_ticket_node sample_clock (exhausted_state, new_sink)))
      = Some [ [ Text ''timestamp'', Text ''ticket_subject'', Text ''ticket_description'',
                 Text ''category'', Text ''retries'', Text ''review_count'', Text ''draft_count'' ],
               [ Text ''2024-01-01T00:00:00'', Text ''Refund request'',
                 Text ''I was charged twice'', Text ''Billing'', Number 2, Number 3, Number 3 ] ]"
    by code_simp
  from 1 2 3 show ?thesis by blast
qed

section \<open>Classification\<close>

lemma classify_coerced: "GeminiClient_classify_ticket r \<in> set categories"
  by (auto simp: GeminiClient_classify_ticket_def categories_def Let_def
      split: http_result.splits option.splits)

lemma classify_failed: "request_failed r \<Longrightarrow> GeminiClient_classify_ticket r = ''General''"
  by (auto simp: GeminiClient_classify_ticket_def request_failed_def
      split: http_result.splits option.splits)

lemma fallback_classify_closed: "fallback_classify subj desc \<in> set categories"
  by (simp add: fallback_classify_def categories_def Let_def)

lemma category_log [simp]: "category (log_state_transition stamp s n a) = category s"
  by (simp add: log_state_transition_def Let_def)

text \<open>
  Claim C6, amended. The classification stage always returns, and with \<open>GeminiClient\<close> or
  with no client the category is one of Billing, Technical, Security and General: a reply
  outside that set is coerced to General; a failed request, like a raising call, gives
  General; with no client the category is that of \<open>fallback_classify\<close>, the keyword
  heuristic of the source.
\<close>

theorem classification_closed:
  "category (classify_ticket_node
       \<lparr> gemini_client = Some (GeminiClient pc dr pr), rag_system = rs \<rparr> now s) \<in> set categories
   \<and> (pc (subject (ticket s)) (description (ticket s)) = Http_reply 200 (Some reply) \<longrightarrow>
        category (classify_ticket_node
          \<lparr> gemini_client = Some (GeminiClient pc dr pr), rag_system = rs \<rparr> now s)
        = (if str_strip reply \<in> set categories then str_strip reply else ''General''))
   \<and> (request_failed (pc (subject (ticket s)) (description (ticket s))) \<longrightarrow>
        category (classify_ticket_node
          \<lparr> gemini_client = Some (GeminiClient pc dr pr), rag_system = rs \<rparr> now s) = ''General'')
   \<and> (classify_ticket client (subject (ticket s)) (description (ticket s)) = Inl e \<longrightarrow>
        category (classify_ticket_node
          \<lparr> gemini_client = Some client, rag_system = rs \<rparr> now s) = ''General'')
   \<and> category (classify_ticket_node \<lparr> gemini_client = None, rag_system = rs \<rparr> now s)
       = fallback_classify (subject (ticket s)) (description (ticket s))
   \<and> category (classify_ticket_node \<lparr> gemini_client = None, rag_system = rs \<rparr> now s)
       \<in> set categories"
proof -
  let ?r = "pc (subject (ticket s)) (description (ticket s))"
  have node: "category (classify_ticket_node
       \<lparr> gemini_client = Some (GeminiClient pc dr pr), rag_system = rs \<rparr> now s)
      = GeminiClient_classify_ticket ?r"
    by (simp add: classify_ticket_node_def GeminiClient_def Let_def)
  have 1: "GeminiClient_classify_ticket ?r \<in> set categories"
    by (rule classify_coerced)
  have 2: "?r = Http_reply 200 (Some reply) \<longrightarrow>
        GeminiClient_classify_ticket ?r
        = (if str_strip reply \<in> set categories then str_strip reply else ''General'')"
    by (simp add: GeminiClient_classify_ticket_def categories_def Let_def)
  have 3: "request_failed ?r \<longrightarrow> GeminiClient_classify_ticket ?r = ''General''"
    by (simp add: classify_failed)
  have 4: "classify_ticket client (subject (ticket s)) (description (ticket s)) = Inl e \<longrightarrow>
        category (classify_ticket_node
          \<lparr> gemini_client = Some client, rag_system = rs \<rparr> now s) = ''General''"
    by (simp add: classify_ticket_node_def Let_def)
  have 5: "category (classify_ticket_node \<lparr> gemini_client = None, rag_system = rs \<rparr> now s)
       = fallback_classify (subject (ticket s)) (description (ticket s))"
    by (simp add: classify_ticket_node_def Let_def)
  have 6: "category (classify_ticket_node \<lparr> gemini_client = None, rag_system = rs \<rparr> now s)
       \<in> set categories"
    unfolding 5 by (rule fallback_classify_closed)
  from 1 2 3 4 5 6 show ?thesis unfolding node by blast
qed

text \<open>A failed request, a reply with white space around a category, a raising call and
  the heuristic on the sample ticket.\<close>

theorem classification_closed_witness:
  "request_failed Transport_error
   \<and> category (classify_ticket_node
        \<lparr> gemini_client = Some (GeminiClient (\<lambda>subj desc. Transport_error)
            (\<lambda>t cat docs feedback. Inr ''A draft'') (\<lambda>subj desc draft docs. Transport_error)),
          rag_system = None \<rparr>
        sample_clock (create_initial_state sample_clock sample_ticket)) = ''General''
   \<and> category (classify_ticket_node
        \<lparr> gemini_client = Some (GeminiClient (\<lambda>subj desc. Http_reply 200 (Some '' Security ''))
            (\<lambda>t cat docs feedback. Inr ''A draft'') (\<lambda>subj desc draft docs. Transport_error)),
          rag_system = None \<rparr>
        sample_clock (create_initial_state sample_clock sample_ticket)) = ''Security''
   \<and> classify_ticket raising_client
        (subject (ticket (create_initial_state sample_clock sample_ticket)))
        (description (ticket (create_initial_state sample_clock sample_ticket))) = Inl Exception
   \<and> category (classify_ticket_node
        \<lparr> gemini_client = Some raising_client, rag_system = None \<rparr>
        sample_clock (create_initial_state sample_clock sample_ticket)) = ''General''
   \<and> category (classify_ticket_node \<lparr> gemini_client = None, rag_system = None \<rparr>
        sample_clock (create_initial_state sample_clock sample_ticket)) = ''Billing''"
proof -
  have f: "request_failed Transport_error"
    by (simp add: request_failed_def)
  have s: "str_strip '' Security '' = ''Security''"
    by code_simp
  have m: "''Security'' \<in> set categories"
    by (simp add: categories_def)
  have r: "classify_ticket raising_client
        (subject (ticket (create_initial_state sample_clock sample_ticket)))
        (description (ticket (create_initial_state sample_clock sample_ticket))) = Inl Exception"
    by (simp add: raising_client_def)
  have h: "fallback_classify
        (subject (ticket (create_initial_state sample_clock sample_ticket)))
        (description (ticket (create_initial_state sample_clock sample_ticket))) = ''Billing''"
    by code_simp
  from classification_closed[where s = "create_initial_state sample_clock sample_ticket"
      and now = sample_clock and rs = None and pc = "\<lambda>subj desc. Transport_error"
      and dr = "\<lambda>t cat docs feedback. Inr ''A draft''"
      and pr = "\<lambda>subj desc draft docs. Transport_error"
      and client = raising_client and e = Exception]
    classification_closed[where s = "create_initial_state sample_clock sample_ticket"
      and now = sample_clock and rs = None
      and pc = "\<lambda>subj desc. Http_reply 200 (Some '' Security '')"
      and dr = "\<lambda>t cat docs feedback. Inr ''A draft''"
      and pr = "\<lambda>subj desc draft docs. Transport_error"
      and reply = "'' Security ''"]
    f s m r h
  show ?thesis by simp
qed

text \<open>Claim C6 as stated fails: when the request fails the sample ticket is classified
  General although the keyword heuristic says Billing; and with no client a ticket that
  only mentions a price is classified Billing, which the keyword table of the
  specification does not give.\<close>

theorem failed_request_is_not_classified_by_keywords:
  "category (classify_ticket_node \<lparr> gemini_client = Some outage_client, rag_system = None \<rparr>
       sample_clock (create_initial_state sample_clock sample_ticket)) = ''General''
   \<and> fallback_classify (subject sample_ticket) (description sample_ticket) = ''Billing''
   \<and> spec_keyword_heuristic (subject sample_ticket) (description sample_ticket) = ''Billing''
   \<and> category (classify_ticket_node no_components
       sample_clock (create_initial_state sample_clock price_ticket)) = ''Billing''
   \<and> spec_keyword_heuristic (subject price_ticket) (description price_ticket) = ''General''"
proof -
  have 1: "category (classify_ticket_node \<lparr> gemini_client = Some outage_client, rag_system = None \<rparr>
       sample_clock (create_initial_state sample_clock sample_ticket)) = ''General''"
    by code_simp
  have 2: "fallback_classify (subject sample_ticket) (description sample_ticket) = ''Billing''"
    by code_simp
  have 3: "spec_keyword_heuristic (subject sample_ticket) (description sample_ticket) = ''Billing''"
    by code_simp
  have 4: "category (classify_ticket_node no_components
       sample_clock (create_initial_state sample_clock price_ticket)) = ''Billing''"
    by code_simp
  have 5: "spec_keyword_heuristic (subject price_ticket) (description price_ticket) = ''General''"
    by code_simp
  from 1 2 3 4 5 show ?thesis by blast
qed

end
